theory Spec2Isabelle
  imports Main "HOL-Library.AList"
begin

section \<open>Python values, exceptions and dictionaries\<close>

text \<open>
  Every exception the modelled code can meet is an instance of Python's \<open>Exception\<close>, so
  an \<open>except Exception\<close> clause catches each constructor below. A call that may raise
  returns \<open>exn + 'a\<close>, with \<open>Inl\<close> for the raised exception.
\<close>

datatype exn =
    NameError string
  | AttributeError string
  | TypeError string
  | ObjectNotExecutableError string
  | PyException string
  | BackendError string

text \<open>\<open>str(e)\<close> as used by the f-strings that print a caught exception.\<close>

fun str_exn :: "exn \<Rightarrow> string" where
  "str_exn (NameError n) = ''name '' @ [CHR 0x27] @ n @ [CHR 0x27] @ '' is not defined''"
| "str_exn (AttributeError m) = m"
| "str_exn (TypeError m) = m"
| "str_exn (ObjectNotExecutableError s) =
     ''Not an executable object: '' @ [CHR 0x27] @ s @ [CHR 0x27]"
| "str_exn (PyException m) = m"
| "str_exn (BackendError m) = m"

datatype pyval = PInt int | PStr string

type_synonym 'v dict = "(string \<times> 'v) list"

text \<open>\<open>d[k] = v\<close> on an insertion-ordered dictionary, and \<open>d.get(k, default)\<close>.\<close>

definition dict_set :: "string \<Rightarrow> 'v \<Rightarrow> 'v dict \<Rightarrow> 'v dict" where
  "dict_set k v d = AList.update k v d"

definition dict_get :: "'v dict \<Rightarrow> string \<Rightarrow> 'v \<Rightarrow> 'v" where
  "dict_get d k dflt = (case map_of d k of Some v \<Rightarrow> v | None \<Rightarrow> dflt)"

text \<open>\<open>str(n)\<close> for an integer, in decimal.\<close>

fun str_nat :: "nat \<Rightarrow> string" where
  "str_nat n =
     (if n < 10 then [char_of (48 + n)]
      else str_nat (n div 10) @ [char_of (48 + n mod 10)])"

declare str_nat.simps [simp del]

definition str_int :: "int \<Rightarrow> string" where
  "str_int i = (if i < 0 then CHR ''-'' # str_nat (nat (- i)) else str_nat (nat i))"

section \<open>Settings (core/config.py)\<close>

record DatabaseConfig =
  db_host :: string
  db_port :: int
  db_name :: string
  db_user :: string
  db_password :: string
  db_ssl_mode :: string
  db_pool_size :: int
  db_max_overflow :: int

definition dsn :: "DatabaseConfig \<Rightarrow> string" where
  "dsn c =
     ''postgresql+asyncpg://'' @ db_user c @ '':'' @ db_password c
       @ ''@'' @ db_host c @ '':'' @ str_int (db_port c) @ ''/'' @ db_name c
       @ ''?ssl='' @ db_ssl_mode c"

record RedisConfig =
  redis_host :: string
  redis_port :: int
  redis_database :: int
  redis_password :: "string option"
  redis_ssl :: bool
  redis_max_connections :: int

definition url :: "RedisConfig \<Rightarrow> string" where
  "url c =
     (let protocol = (if redis_ssl c then ''rediss'' else ''redis'');
          auth = (case redis_password c of
                    None \<Rightarrow> ''''
                  | Some p \<Rightarrow> (if p = '''' then '''' else '':'' @ p @ ''@''))
      in protocol @ ''://'' @ auth @ redis_host c @ '':'' @ str_int (redis_port c)
           @ ''/'' @ str_int (redis_database c))"

text \<open>
  Prices are Python floats; the code only stores them, so their type is left open as
  \<open>'p\<close>.
\<close>

record 'p PaymentConfig =
  trial_price :: 'p
  trial_days :: int
  full_price :: 'p
  full_days :: int
  trial_device_limit :: int
  full_device_limit :: int

record 'p Settings =
  database :: DatabaseConfig
  redis :: RedisConfig
  payment :: "'p PaymentConfig"
  server_debug :: bool

section \<open>DatabaseManager (core/database.py)\<close>

subsection \<open>The manager's fields and the backends it talks to\<close>

record Engine =
  engine_dsn :: string
  engine_echo :: bool
  engine_pool_size :: int
  engine_max_overflow :: int
  engine_pool_pre_ping :: bool
  engine_pool_recycle :: int

record RedisClient =
  client_url :: string
  client_max_connections :: int
  client_decode_responses :: bool

record DatabaseManager =
  engine :: "Engine option"
  session_factory :: "Engine option"
  redis_client :: "RedisClient option"

text \<open>
  \<open>DatabaseManager.__init__\<close>: all three fields start as \<open>None\<close>. The session factory
  is represented by the engine it is bound to.
\<close>

definition init_manager :: DatabaseManager where
  "init_manager = \<lparr>engine = None, session_factory = None, redis_client = None\<rparr>"

text \<open>
  What the two servers would answer is the environment of the model: for each request the
  record says whether the server lets it return or makes it raise, should the request
  reach the server.
  \<^item> \<open>pg_begin\<close>, \<open>pg_end\<close>: entering and leaving a block \<open>async with engine.begin() as conn\<close>,
    that is, connecting and committing;
  \<^item> \<open>pg_select1\<close>, \<open>pg_size\<close>, \<open>pg_count\<close>: the answers to the three SQL statements of
    core/database.py;
  \<^item> \<open>redis_ping\<close>, \<open>redis_info\<close>: the two calls on the cache client.
\<close>

record Backends =
  pg_select1 :: "exn + unit"
  pg_begin :: "exn + unit"
  pg_size :: "exn + int"
  pg_count :: "exn + int"
  pg_end :: "exn + unit"
  redis_ping :: "exn + unit"
  redis_info :: "exn + pyval dict"

text \<open>
  What is handed to \<open>execute\<close>: a Python \<open>str\<close>, or the result of \<open>text(...)\<close>. The module
  imports \<open>async_sessionmaker\<close>, which exists from SQLAlchemy 2.0 on, and there
  \<open>AsyncConnection.execute\<close> takes executable objects only: given a \<open>str\<close> it raises
  \<open>ObjectNotExecutableError\<close> and sends nothing, so the server's answer plays no part.
  core/database.py passes a \<open>str\<close> in every call; scripts/migrate.py wraps every
  statement in \<open>text(...)\<close>.
\<close>

datatype statement = Str string | Text string

definition conn_execute :: "statement \<Rightarrow> exn + 'a \<Rightarrow> exn + 'a" where
  "conn_execute stmt answer =
     (case stmt of
        Str s \<Rightarrow> Inl (ObjectNotExecutableError s)
      | Text _ \<Rightarrow> answer)"

text \<open>
  A method call on a field that is still \<open>None\<close> raises \<open>AttributeError\<close> before any
  request leaves the process. \<open>probe_postgres\<close> is the block
  \<open>async with self.engine.begin() as conn: await conn.execute("SELECT 1")\<close>, which
  \<open>_init_postgres\<close> and \<open>health_check\<close> both contain.
\<close>

definition probe_postgres :: "DatabaseManager \<Rightarrow> Backends \<Rightarrow> exn + unit" where
  "probe_postgres m b =
     (case engine m of
        None \<Rightarrow> Inl (AttributeError ''begin'')
      | Some _ \<Rightarrow>
          (case pg_begin b of
             Inl e \<Rightarrow> Inl e
           | Inr _ \<Rightarrow>
               (case conn_execute (Str ''SELECT 1'') (pg_select1 b) of
                  Inl e \<Rightarrow> Inl e
                | Inr _ \<Rightarrow> pg_end b)))"

definition probe_redis :: "DatabaseManager \<Rightarrow> Backends \<Rightarrow> exn + unit" where
  "probe_redis m b =
     (case redis_client m of
        None \<Rightarrow> Inl (AttributeError ''ping'')
      | Some _ \<Rightarrow> redis_ping b)"

subsection \<open>initialize\<close>

datatype probe = ProbePostgres | ProbeRedis

text \<open>
  \<open>_init_postgres\<close> assigns \<open>self.engine\<close> and \<open>self.session_factory\<close> and then tests the
  connection; \<open>_init_redis\<close> assigns \<open>self.redis_client\<close> and then pings. Both return the
  probes they made, besides the manager they leave behind.
\<close>

definition new_engine :: "'p Settings \<Rightarrow> Engine" where
  "new_engine st =
     \<lparr>engine_dsn = dsn (database st),
      engine_echo = server_debug st,
      engine_pool_size = db_pool_size (database st),
      engine_max_overflow = db_max_overflow (database st),
      engine_pool_pre_ping = True,
      engine_pool_recycle = 300\<rparr>"

definition new_redis_client :: "'p Settings \<Rightarrow> RedisClient" where
  "new_redis_client st =
     \<lparr>client_url = url (redis st),
      client_max_connections = redis_max_connections (redis st),
      client_decode_responses = True\<rparr>"

definition init_postgres ::
  "'p Settings \<Rightarrow> Backends \<Rightarrow> DatabaseManager \<Rightarrow> (exn + unit) \<times> DatabaseManager \<times> probe list"
where
  "init_postgres st b m =
     (let m1 = m\<lparr>engine := Some (new_engine st)\<rparr>;
          m2 = m1\<lparr>session_factory := Some (new_engine st)\<rparr>
      in (probe_postgres m2 b, m2, [ProbePostgres]))"

definition init_redis ::
  "'p Settings \<Rightarrow> Backends \<Rightarrow> DatabaseManager \<Rightarrow> (exn + unit) \<times> DatabaseManager \<times> probe list"
where
  "init_redis st b m =
     (let m1 = m\<lparr>redis_client := Some (new_redis_client st)\<rparr>
      in (probe_redis m1 b, m1, [ProbeRedis]))"

definition initialize ::
  "'p Settings \<Rightarrow> Backends \<Rightarrow> DatabaseManager \<Rightarrow> (exn + unit) \<times> DatabaseManager \<times> probe list"
where
  "initialize st b m =
     (case init_postgres st b m of
        (Inl e, m1, ps) \<Rightarrow> (Inl e, m1, ps)
      | (Inr _, m1, ps) \<Rightarrow>
          (case init_redis st b m1 of (r, m2, ps') \<Rightarrow> (r, m2, ps @ ps')))"

subsection \<open>health_check\<close>

text \<open>
  Each probe sits in its own \<open>try\<close> whose handler is \<open>except Exception: pass\<close>: the entry
  is set to \<open>True\<close> only when the probe returned.
\<close>

definition health_check :: "DatabaseManager \<Rightarrow> Backends \<Rightarrow> exn + bool dict" where
  "health_check m b =
     (let health = [(''postgres'', False), (''redis'', False)];
          health1 = (case probe_postgres m b of
                       Inr _ \<Rightarrow> dict_set ''postgres'' True health
                     | Inl _ \<Rightarrow> health);
          health2 = (case probe_redis m b of
                       Inr _ \<Rightarrow> dict_set ''redis'' True health1
                     | Inl _ \<Rightarrow> health1)
      in Inr health2)"

subsection \<open>get_stats\<close>

text \<open>
  The PostgreSQL part runs in a transaction block with no handler around it, so whatever
  it raises leaves \<open>get_stats\<close>; both its statements are passed as \<open>str\<close>. Only the Redis
  part is inside \<open>try\<close>; its handler is \<open>pass\<close>, which leaves the three Redis keys out of
  the dictionary.
\<close>

definition postgres_stats :: "DatabaseManager \<Rightarrow> Backends \<Rightarrow> pyval dict \<Rightarrow> exn + pyval dict" where
  "postgres_stats m b stats =
     (case engine m of
        None \<Rightarrow> Inl (AttributeError ''begin'')
      | Some _ \<Rightarrow>
          (case pg_begin b of
             Inl e \<Rightarrow> Inl e
           | Inr _ \<Rightarrow>
               (case conn_execute (Str ''SELECT pg_database_size(current_database())'') (pg_size b) of
                  Inl e \<Rightarrow> Inl e
                | Inr db_size \<Rightarrow>
                    (let stats1 = dict_set ''postgres_size_bytes'' (PInt db_size) stats in
                     case conn_execute (Str ''SELECT count(*) FROM pg_stat_activity'') (pg_count b) of
                       Inl e \<Rightarrow> Inl e
                     | Inr connection_count \<Rightarrow>
                         (let stats2 = dict_set ''postgres_connections'' (PInt connection_count) stats1 in
                          case pg_end b of
                            Inl e \<Rightarrow> Inl e
                          | Inr _ \<Rightarrow> Inr stats2)))))"

definition fetch_redis_info :: "DatabaseManager \<Rightarrow> Backends \<Rightarrow> exn + pyval dict" where
  "fetch_redis_info m b =
     (case redis_client m of
        None \<Rightarrow> Inl (AttributeError ''info'')
      | Some _ \<Rightarrow> redis_info b)"

definition redis_stats :: "DatabaseManager \<Rightarrow> Backends \<Rightarrow> pyval dict \<Rightarrow> pyval dict" where
  "redis_stats m b stats =
     (case fetch_redis_info m b of
        Inl _ \<Rightarrow> stats
      | Inr info \<Rightarrow>
          dict_set ''redis_total_commands_processed'' (dict_get info ''total_commands_processed'' (PInt 0))
            (dict_set ''redis_connected_clients'' (dict_get info ''connected_clients'' (PInt 0))
               (dict_set ''redis_memory'' (dict_get info ''used_memory_human'' (PStr ''N/A'')) stats)))"

definition get_stats :: "DatabaseManager \<Rightarrow> Backends \<Rightarrow> exn + pyval dict" where
  "get_stats m b =
     (case postgres_stats m b [] of
        Inl e \<Rightarrow> Inl e
      | Inr stats \<Rightarrow> Inr (redis_stats m b stats))"

subsection \<open>get_session\<close>

datatype PlanType = TRIAL | PREMIUM

datatype ServerStatus = ONLINE

record 'p Plan =
  plan_name :: string
  plan_description :: string
  plan_type :: PlanType
  plan_price :: 'p
  plan_duration_days :: int
  plan_device_limit :: int
  plan_features :: "string list dict"
  plan_is_active :: bool
  plan_is_public :: bool

record Server =
  server_name :: string
  server_hostname :: string
  server_ip_address :: string
  server_location :: string
  server_capacity :: int
  server_cpu_cores :: int
  server_memory_gb :: int
  server_bandwidth_gb :: int
  server_status :: ServerStatus
  server_config :: "int dict"

text \<open>The relational store as far as the code reads and writes it: two tables.\<close>

record 'p Store =
  plans :: "'p Plan list"
  servers :: "Server list"

text \<open>
  A session works on the store: \<open>store\<close> is what is committed and visible,
  \<open>new_plans\<close> and \<open>new_servers\<close> are the objects added since the last commit (the
  session factory is built with \<open>autoflush=False\<close>, so a query does not see them), and
  \<open>trace\<close> records, in order, every commit, rollback and printed line.
\<close>

datatype event = Commit | Rollback | Print string

record 'p Session =
  store :: "'p Store"
  new_plans :: "'p Plan list"
  new_servers :: "Server list"
  trace :: "event list"

definition new_session :: "'p Store \<Rightarrow> 'p Session" where
  "new_session db = \<lparr>store = db, new_plans = [], new_servers = [], trace = []\<rparr>"

definition session_add_plan :: "'p Plan \<Rightarrow> 'p Session \<Rightarrow> 'p Session" where
  "session_add_plan p s = s\<lparr>new_plans := new_plans s @ [p]\<rparr>"

definition session_add_server :: "Server \<Rightarrow> 'p Session \<Rightarrow> 'p Session" where
  "session_add_server x s = s\<lparr>new_servers := new_servers s @ [x]\<rparr>"

definition session_print :: "string \<Rightarrow> 'p Session \<Rightarrow> 'p Session" where
  "session_print line s = s\<lparr>trace := trace s @ [Print line]\<rparr>"

text \<open>
  \<open>session.commit()\<close>: the first argument is what the server answers, \<open>None\<close> for
  success. A commit that raises writes nothing.
\<close>

definition session_commit :: "exn option \<Rightarrow> 'p Session \<Rightarrow> (exn + unit) \<times> 'p Session" where
  "session_commit fault s =
     (case fault of
        Some e \<Rightarrow> (Inl e, s\<lparr>trace := trace s @ [Commit]\<rparr>)
      | None \<Rightarrow>
          (Inr (),
           s\<lparr>store := \<lparr>plans = plans (store s) @ new_plans s,
                        servers = servers (store s) @ new_servers s\<rparr>,
             new_plans := [],
             new_servers := [],
             trace := trace s @ [Commit]\<rparr>))"

definition session_rollback :: "'p Session \<Rightarrow> 'p Session" where
  "session_rollback s = s\<lparr>new_plans := [], new_servers := [], trace := trace s @ [Rollback]\<rparr>"

text \<open>
  \<open>get_session\<close> is an \<open>async def\<close> whose body contains \<open>yield\<close>, and it carries no
  decorator: a call returns an async generator object, not an asynchronous context
  manager.
\<close>

datatype object_kind = AsyncGenerator | AsyncContextManager

definition get_session :: object_kind where
  "get_session = AsyncGenerator"

text \<open>
  The statements of \<open>get_session\<close> around its \<open>yield\<close>, for whoever drives the generator as
  a context manager: the session goes to the caller's block, a commit follows when the
  block ends normally, and on an exception (of the block or of that commit) a rollback
  follows and the exception is raised again. The block is the function \<open>body\<close>; it
  returns the session as it left it, also when it raises. \<open>exit_fault\<close> is the server's
  answer to the closing commit.
\<close>

definition session_scope ::
  "('p Session \<Rightarrow> (exn + 'a) \<times> 'p Session) \<Rightarrow> exn option \<Rightarrow> 'p Store \<Rightarrow> (exn + 'a) \<times> 'p Session"
where
  "session_scope body exit_fault db =
     (case body (new_session db) of
        (Inl e, s1) \<Rightarrow> (Inl e, session_rollback s1)
      | (Inr v, s1) \<Rightarrow>
          (case session_commit exit_fault s1 of
             (Inl e, s2) \<Rightarrow> (Inl e, session_rollback s2)
           | (Inr _, s2) \<Rightarrow> (Inr v, s2)))"

text \<open>
  The statement \<open>async with obj as session: body\<close>. It needs \<open>__aenter__\<close> and
  \<open>__aexit__\<close> on \<open>obj\<close>; an async generator object has neither, so the statement raises
  \<open>TypeError\<close> before a single statement of the generator or of the block has run: no
  session exists, nothing is committed or rolled back, and the store is as it was.
\<close>

definition not_a_context_manager :: exn where
  "not_a_context_manager =
     TypeError (CHR 0x27 # ''async_generator'' @ [CHR 0x27]
       @ '' object does not support the asynchronous context manager protocol'')"

definition async_with ::
  "object_kind \<Rightarrow> ('p Session \<Rightarrow> (exn + 'a) \<times> 'p Session) \<Rightarrow> exn option \<Rightarrow> 'p Store
     \<Rightarrow> (exn + 'a) \<times> 'p Session"
where
  "async_with obj body exit_fault db =
     (case obj of
        AsyncContextManager \<Rightarrow> session_scope body exit_fault db
      | AsyncGenerator \<Rightarrow> (Inl not_a_context_manager, new_session db))"

subsection \<open>backup_database and restore_database\<close>

text \<open>
  The names bound at module level in core/database.py: its imports and its two classes.
  A function body that reads any other global name (one that is no builtin either) raises
  \<open>NameError\<close> at that point.
\<close>

definition database_module_globals :: "string list" where
  "database_module_globals =
     [''asyncio'', ''Optional'', ''AsyncGenerator'', ''Any'', ''Dict'', ''List'',
      ''create_async_engine'', ''AsyncSession'', ''async_sessionmaker'', ''NullPool'',
      ''Redis'', ''asyncpg'', ''Settings'', ''Base'', ''DatabaseManager'', ''DatabaseUtils'']"

definition load_global :: "string list \<Rightarrow> string \<Rightarrow> exn + unit" where
  "load_global g n = (if n \<in> set g then Inr () else Inl (NameError n))"

record Spawn =
  argv :: "string list"
  spawn_env :: "string dict"

record Completed =
  returncode :: int
  stdout :: string
  stderr :: string

text \<open>
  The operating system as the code meets it: the process environment, the clock already
  formatted by \<open>strftime("%Y%m%d_%H%M%S")\<close>, \<open>str(Path(a) / b)\<close>, the outcome of running a
  child process to completion (\<open>Inl\<close> when it cannot be started), which paths exist, and
  the line the user types at a prompt.
\<close>

record OS =
  os_environ :: "string dict"
  clock :: string
  path_join :: "string \<Rightarrow> string \<Rightarrow> string"
  run_process :: "Spawn \<Rightarrow> exn + Completed"
  path_exists :: "string \<Rightarrow> bool"
  stdin_line :: string

text \<open>
  Both functions are run against a list \<open>g\<close> of bound global names and return, besides
  their result, the child processes they asked for.
\<close>

definition backup_database_in ::
  "string list \<Rightarrow> 'p Settings \<Rightarrow> OS \<Rightarrow> string \<Rightarrow> (exn + string) \<times> Spawn list"
where
  "backup_database_in g st os backup_path =
     (let timestamp = clock os;
          filename = ''connectifyvpn_backup_'' @ timestamp @ ''.sql''
      in case load_global g ''Path'' of
           Inl e \<Rightarrow> (Inl e, [])
         | Inr _ \<Rightarrow>
             (let filepath = path_join os backup_path filename;
                  cmd = [''pg_dump'',
                         ''-h'', db_host (database st),
                         ''-p'', str_int (db_port (database st)),
                         ''-U'', db_user (database st),
                         ''-d'', db_name (database st),
                         ''-f'', filepath,
                         ''--format=custom'',
                         ''--verbose'']
              in case load_global g ''os'' of
                   Inl e \<Rightarrow> (Inl e, [])
                 | Inr _ \<Rightarrow>
                     (let env = dict_set ''PGPASSWORD'' (db_password (database st)) (os_environ os);
                          child = \<lparr>argv = cmd, spawn_env = env\<rparr>
                      in case load_global g ''asyncio'' of
                           Inl e \<Rightarrow> (Inl e, [])
                         | Inr _ \<Rightarrow>
                             (case run_process os child of
                                Inl e \<Rightarrow> (Inl e, [child])
                              | Inr process \<Rightarrow>
                                  (if returncode process \<noteq> 0
                                   then (Inl (PyException (''Backup failed: '' @ stderr process)), [child])
                                   else (Inr filepath, [child]))))))"

definition restore_database_in ::
  "string list \<Rightarrow> 'p Settings \<Rightarrow> OS \<Rightarrow> string \<Rightarrow> (exn + bool) \<times> Spawn list"
where
  "restore_database_in g st os backup_path =
     (let cmd = [''pg_restore'',
                 ''-h'', db_host (database st),
                 ''-p'', str_int (db_port (database st)),
                 ''-U'', db_user (database st),
                 ''-d'', db_name (database st),
                 ''-c'',
                 ''--verbose'',
                 backup_path]
      in case load_global g ''os'' of
           Inl e \<Rightarrow> (Inl e, [])
         | Inr _ \<Rightarrow>
             (let env = dict_set ''PGPASSWORD'' (db_password (database st)) (os_environ os);
                  child = \<lparr>argv = cmd, spawn_env = env\<rparr>
              in case load_global g ''asyncio'' of
                   Inl e \<Rightarrow> (Inl e, [])
                 | Inr _ \<Rightarrow>
                     (case run_process os child of
                        Inl e \<Rightarrow> (Inl e, [child])
                      | Inr process \<Rightarrow>
                          (if returncode process \<noteq> 0
                           then (Inl (PyException (''Restore failed: '' @ stderr process)), [child])
                           else (Inr True, [child])))))"

text \<open>The two methods of \<open>DatabaseManager\<close>, in the module as it is written.\<close>

definition backup_database :: "'p Settings \<Rightarrow> OS \<Rightarrow> string \<Rightarrow> (exn + string) \<times> Spawn list" where
  "backup_database = backup_database_in database_module_globals"

definition restore_database :: "'p Settings \<Rightarrow> OS \<Rightarrow> string \<Rightarrow> (exn + bool) \<times> Spawn list" where
  "restore_database = restore_database_in database_module_globals"

section \<open>MigrationManager (scripts/migrate.py)\<close>

text \<open>The pictographs that start the printed lines, as their UTF-8 bytes.\<close>

definition seedling :: string where
  "seedling = [CHR 0xF0, CHR 0x9F, CHR 0x8C, CHR 0xB1]"

definition warning_sign :: string where
  "warning_sign = [CHR 0xE2, CHR 0x9A, CHR 0xA0, CHR 0xEF, CHR 0xB8, CHR 0x8F]"

definition check_mark :: string where
  "check_mark = [CHR 0xE2, CHR 0x9C, CHR 0x85]"

definition cross_mark :: string where
  "cross_mark = [CHR 0xE2, CHR 0x9D, CHR 0x8C]"

definition floppy_disk :: string where
  "floppy_disk = [CHR 0xF0, CHR 0x9F, CHR 0x92, CHR 0xBE]"

definition arrows :: string where
  "arrows = [CHR 0xF0, CHR 0x9F, CHR 0x94, CHR 0x84]"

subsection \<open>seed_database\<close>

definition default_plans :: "'p Settings \<Rightarrow> 'p Plan list" where
  "default_plans st =
     [\<lparr>plan_name = ''Trial'',
       plan_description = ''3-day trial with limited features'',
       plan_type = TRIAL,
       plan_price = trial_price (payment st),
       plan_duration_days = trial_days (payment st),
       plan_device_limit = trial_device_limit (payment st),
       plan_features =
         [(''highlights'', [''3 days access'', ''1 device'', ''Basic support'', ''All protocols''])],
       plan_is_active = True,
       plan_is_public = True\<rparr>,
      \<lparr>plan_name = ''Premium'',
       plan_description = ''Full premium access for 365 days'',
       plan_type = PREMIUM,
       plan_price = full_price (payment st),
       plan_duration_days = full_days (payment st),
       plan_device_limit = full_device_limit (payment st),
       plan_features =
         [(''highlights'',
           [''365 days access'',
            str_int (full_device_limit (payment st)) @ '' devices'',
            ''Priority support'',
            ''All protocols'',
            ''Global servers'',
            ''No speed limits''])],
       plan_is_active = True,
       plan_is_public = True\<rparr>]"

definition default_server_config :: "int dict" where
  "default_server_config =
     [(''vless_tls_port'', 443), (''vless_ntls_port'', 80), (''vmess_tls_port'', 8443),
      (''vmess_ntls_port'', 8080), (''trojan_port'', 8443)]"

definition default_servers :: "Server list" where
  "default_servers =
     [\<lparr>server_name = ''SG-01'', server_hostname = ''sg01.yourdomain.com'',
       server_ip_address = ''1.2.3.4'', server_location = ''Singapore'',
       server_capacity = 20, server_cpu_cores = 4, server_memory_gb = 8,
       server_bandwidth_gb = 1000, server_status = ONLINE,
       server_config = default_server_config\<rparr>,
      \<lparr>server_name = ''SG-02'', server_hostname = ''sg02.yourdomain.com'',
       server_ip_address = ''2.3.4.5'', server_location = ''Singapore'',
       server_capacity = 20, server_cpu_cores = 4, server_memory_gb = 8,
       server_bandwidth_gb = 1000, server_status = ONLINE,
       server_config = default_server_config\<rparr>,
      \<lparr>server_name = ''US-01'', server_hostname = ''us01.yourdomain.com'',
       server_ip_address = ''3.4.5.6'', server_location = ''United States'',
       server_capacity = 25, server_cpu_cores = 6, server_memory_gb = 12,
       server_bandwidth_gb = 2000, server_status = ONLINE,
       server_config = default_server_config\<rparr>]"

text \<open>
  What the server answers to the awaited calls of one seeding run, \<open>None\<close> for success:
  the two counting queries, the two commits inside the block, and the closing commit of
  \<open>get_session\<close>.
\<close>

record SeedFaults =
  count_plans_fault :: "exn option"
  commit_plans_fault :: "exn option"
  count_servers_fault :: "exn option"
  commit_servers_fault :: "exn option"
  exit_commit_fault :: "exn option"

definition no_faults :: SeedFaults where
  "no_faults =
     \<lparr>count_plans_fault = None, commit_plans_fault = None, count_servers_fault = None,
      commit_servers_fault = None, exit_commit_fault = None\<rparr>"

text \<open>\<open>SELECT COUNT(*) FROM plans WHERE is_active = true\<close> and \<open>SELECT COUNT(*) FROM servers\<close>.\<close>

definition count_active_plans :: "'p Store \<Rightarrow> int" where
  "count_active_plans db = int (length (filter plan_is_active (plans db)))"

definition count_servers :: "'p Store \<Rightarrow> int" where
  "count_servers db = int (length (servers db))"

text \<open>
  The block that \<open>seed_database\<close> writes inside the session; its two queries are wrapped
  in \<open>text(...)\<close>.
\<close>

definition seed_body ::
  "'p Settings \<Rightarrow> SeedFaults \<Rightarrow> 'p Session \<Rightarrow> (exn + unit) \<times> 'p Session"
where
  "seed_body st f s =
     (case count_plans_fault f of
        Some e \<Rightarrow> (Inl e, s)
      | None \<Rightarrow>
          (let plan_count = count_active_plans (store s) in
           if plan_count > 0
           then (Inr (),
                 session_print (warning_sign @ ''  Database already contains data. Skipping seed.'') s)
           else
             (let s1 = fold session_add_plan (default_plans st) s in
              case session_commit (commit_plans_fault f) s1 of
                (Inl e, s2) \<Rightarrow> (Inl e, s2)
              | (Inr _, s2) \<Rightarrow>
                  (let s3 = session_print
                              (check_mark @ '' Created '' @ str_nat (length (default_plans st))
                                 @ '' default plans'') s2
                   in case count_servers_fault f of
                        Some e \<Rightarrow> (Inl e, s3)
                      | None \<Rightarrow>
                          (let server_count = count_servers (store s3) in
                           if server_count = 0
                           then
                             (let s4 = fold session_add_server default_servers s3 in
                              case session_commit (commit_servers_fault f) s4 of
                                (Inl e, s5) \<Rightarrow> (Inl e, s5)
                              | (Inr _, s5) \<Rightarrow>
                                  (Inr (),
                                   session_print
                                     (check_mark @ '' Created '' @ str_nat (length default_servers)
                                        @ '' default servers'') s5))
                           else (Inr (), s3))))))"

text \<open>
  \<open>seed_database\<close> prints its first line and then runs its block under
  \<open>async with self.db.get_session() as session\<close>. \<open>seed_database_in\<close> takes the kind of
  object that call returns; \<open>seed_database\<close> is the method with \<open>get_session\<close> as it is
  written. The result is what the call returns or raises, the store afterwards, and the
  trace.
\<close>

definition seed_database_in ::
  "object_kind \<Rightarrow> 'p Settings \<Rightarrow> SeedFaults \<Rightarrow> 'p Store \<Rightarrow> (exn + unit) \<times> 'p Store \<times> event list"
where
  "seed_database_in obj st f db =
     (case async_with obj (seed_body st f) (exit_commit_fault f) db of
        (r, s) \<Rightarrow>
          (r, store s, Print (seedling @ '' Seeding database with initial data...'') # trace s))"

definition seed_database ::
  "'p Settings \<Rightarrow> SeedFaults \<Rightarrow> 'p Store \<Rightarrow> (exn + unit) \<times> 'p Store \<times> event list"
where
  "seed_database = seed_database_in get_session"

text \<open>The store left by one seeding run.\<close>

definition seeded_in :: "object_kind \<Rightarrow> 'p Settings \<Rightarrow> SeedFaults \<Rightarrow> 'p Store \<Rightarrow> 'p Store" where
  "seeded_in obj st f db = fst (snd (seed_database_in obj st f db))"

definition seeded :: "'p Settings \<Rightarrow> SeedFaults \<Rightarrow> 'p Store \<Rightarrow> 'p Store" where
  "seeded st f db = fst (snd (seed_database st f db))"

subsection \<open>backup and restore\<close>

text \<open>\<open>str.lower()\<close> on the ASCII letters.\<close>

definition lower_char :: "char \<Rightarrow> char" where
  "lower_char c =
     (if 65 \<le> (of_char c :: nat) \<and> (of_char c :: nat) \<le> 90
      then char_of ((of_char c :: nat) + 32) else c)"

definition lower :: "string \<Rightarrow> string" where
  "lower s = map lower_char s"

text \<open>
  Both methods catch what the manager raises and print it, so they return \<open>None\<close> on
  every path; the model returns the printed lines, whether the user was asked to confirm,
  and the child processes asked for.
\<close>

record Outcome =
  raised :: "exn option"
  printed :: "string list"
  prompted :: bool
  spawned :: "Spawn list"

definition backup :: "'p Settings \<Rightarrow> OS \<Rightarrow> string option \<Rightarrow> Outcome" where
  "backup st os backup_path_arg =
     (let backup_path =
            (case backup_path_arg of
               None \<Rightarrow> ''/tmp/connectifyvpn_backup_'' @ clock os @ ''.dump''
             | Some p \<Rightarrow>
                 (if p = '''' then ''/tmp/connectifyvpn_backup_'' @ clock os @ ''.dump'' else p));
          line1 = floppy_disk @ '' Creating backup at '' @ backup_path @ ''...''
      in case backup_database st os backup_path of
           (Inr backup_file, children) \<Rightarrow>
             \<lparr>raised = None,
              printed = [line1, check_mark @ '' Backup created: '' @ backup_file],
              prompted = False,
              spawned = children\<rparr>
         | (Inl e, children) \<Rightarrow>
             \<lparr>raised = None,
              printed = [line1, cross_mark @ '' Backup failed: '' @ str_exn e],
              prompted = False,
              spawned = children\<rparr>)"

definition restore :: "'p Settings \<Rightarrow> OS \<Rightarrow> string \<Rightarrow> Outcome" where
  "restore st os backup_path =
     (if \<not> path_exists os backup_path
      then \<lparr>raised = None,
            printed = [cross_mark @ '' Backup file not found: '' @ backup_path],
            prompted = False,
            spawned = []\<rparr>
      else
        (let line1 = arrows @ '' Restoring from '' @ backup_path @ ''...'';
             confirm = stdin_line os
         in if lower confirm \<noteq> ''yes''
            then \<lparr>raised = None,
                  printed = [line1, cross_mark @ '' Restore cancelled''],
                  prompted = True,
                  spawned = []\<rparr>
            else
              (case restore_database st os backup_path of
                 (Inr _, children) \<Rightarrow>
                   \<lparr>raised = None,
                    printed = [line1, check_mark @ '' Restore completed''],
                    prompted = True,
                    spawned = children\<rparr>
               | (Inl e, children) \<Rightarrow>
                   \<lparr>raised = None,
                    printed = [line1, cross_mark @ '' Restore failed: '' @ str_exn e],
                    prompted = True,
                    spawned = children\<rparr>)))"

section \<open>Concrete inputs\<close>

definition example_settings :: "string Settings" where
  "example_settings =
     \<lparr>database = \<lparr>db_host = ''localhost'', db_port = 5432, db_name = ''connectifyvpn'',
                   db_user = ''postgres'', db_password = ''s3cret'', db_ssl_mode = ''prefer'',
                   db_pool_size = 20, db_max_overflow = 30\<rparr>,
      redis = \<lparr>redis_host = ''localhost'', redis_port = 6379, redis_database = 0,
                redis_password = None, redis_ssl = False, redis_max_connections = 50\<rparr>,
      payment = \<lparr>trial_price = ''1.0'', trial_days = 3, full_price = ''35.0'', full_days = 365,
                  trial_device_limit = 1, full_device_limit = 5\<rparr>,
      server_debug = False\<rparr>"

text \<open>
  The manager after \<open>initialize\<close> has raised at the relational probe, and a manager on which
  \<open>_init_redis\<close> has run as well.
\<close>

definition half_initialized_manager :: DatabaseManager where
  "half_initialized_manager =
     \<lparr>engine = Some (new_engine example_settings),
      session_factory = Some (new_engine example_settings),
      redis_client = None\<rparr>"

definition example_manager :: DatabaseManager where
  "example_manager =
     \<lparr>engine = Some (new_engine example_settings),
      session_factory = Some (new_engine example_settings),
      redis_client = Some (new_redis_client example_settings)\<rparr>"

text \<open>Both servers running and accepting every request.\<close>

definition backends_up :: Backends where
  "backends_up =
     \<lparr>pg_select1 = Inr (), pg_begin = Inr (), pg_size = Inr 8192000, pg_count = Inr 7,
      pg_end = Inr (), redis_ping = Inr (),
      redis_info = Inr [(''used_memory_human'', PStr ''1.05M''), (''connected_clients'', PInt 3)]\<rparr>"

text \<open>The cache server refusing connections, the relational server running.\<close>

definition backends_cache_down :: Backends where
  "backends_cache_down =
     backends_up\<lparr>redis_ping := Inl (BackendError ''Connection refused''),
                 redis_info := Inl (BackendError ''Connection refused'')\<rparr>"

text \<open>The relational server refusing connections, the cache server running.\<close>

definition backends_relational_down :: Backends where
  "backends_relational_down =
     backends_up\<lparr>pg_begin := Inl (BackendError ''connection refused'')\<rparr>"

text \<open>A store that holds one active plan and no server, as after a schema upgrade.\<close>

definition plans_only_store :: "string Store" where
  "plans_only_store =
     \<lparr>plans = [\<lparr>plan_name = ''Legacy'', plan_description = ''Monthly'', plan_type = PREMIUM,
                 plan_price = ''10.0'', plan_duration_days = 30, plan_device_limit = 2,
                 plan_features = [], plan_is_active = True, plan_is_public = True\<rparr>],
      servers = []\<rparr>"

text \<open>
  A machine on which \<open>pg_dump\<close> and \<open>pg_restore\<close> would exit with code 0, one dump file
  exists, and the user answers the prompt with \<open>yes\<close>.
\<close>

definition example_os :: OS where
  "example_os =
     \<lparr>os_environ = [(''HOME'', ''/root'')],
      clock = ''20240101_120000'',
      path_join = (\<lambda>a b. a @ ''/'' @ b),
      run_process = (\<lambda>child. Inr \<lparr>returncode = 0, stdout = '''', stderr = ''''\<rparr>),
      path_exists = (\<lambda>p. p = ''/var/backups/connectifyvpn.dump''),
      stdin_line = ''yes''\<rparr>"

text \<open>The same machine with a dump utility that exits with code 1.\<close>

definition failing_os :: OS where
  "failing_os =
     example_os\<lparr>run_process :=
       (\<lambda>child. Inr \<lparr>returncode = 1, stdout = '''', stderr = ''pg_dump: error: connection failed''\<rparr>)\<rparr>"

section \<open>Auxiliary facts\<close>

lemma dict_set_Nil: "dict_set k v [] = [(k, v)]"
  by (simp add: dict_set_def)

lemma dict_set_Cons:
  "dict_set k v ((k', v') # d) = (if k' = k then (k, v) # d else (k', v') # dict_set k v d)"
  by (simp add: dict_set_def)

lemma map_of_dict_set: "map_of (dict_set k v d) k = Some v"
  by (simp add: dict_set_def update_conv')

lemma fold_session_add_plan:
  "fold session_add_plan ps s = s\<lparr>new_plans := new_plans s @ ps\<rparr>"
  by (induction ps arbitrary: s) (simp_all add: session_add_plan_def)

lemma fold_session_add_server:
  "fold session_add_server xs s = s\<lparr>new_servers := new_servers s @ xs\<rparr>"
  by (induction xs arbitrary: s) (simp_all add: session_add_server_def)

lemma lower_yes: "lower ''yes'' = ''yes''"
  by (simp add: lower_def lower_char_def)

section \<open>The relational probe and the relational statistics\<close>

text \<open>
  Every relational statement of core/database.py is a \<open>str\<close>, so none of them reaches the
  server: once the connection is open the first \<open>execute\<close> raises.
\<close>

lemma probe_postgres_connected:
  "engine m = Some eng \<Longrightarrow> pg_begin b = Inr () \<Longrightarrow>
   probe_postgres m b = Inl (ObjectNotExecutableError ''SELECT 1'')"
  by (simp add: probe_postgres_def conn_execute_def)

lemma probe_postgres_refused:
  "engine m = Some eng \<Longrightarrow> pg_begin b = Inl e \<Longrightarrow> probe_postgres m b = Inl e"
  by (simp add: probe_postgres_def)

lemma probe_postgres_raises: "isl (probe_postgres m b)"
  by (simp add: probe_postgres_def conn_execute_def split: option.splits sum.splits)

lemma postgres_stats_connected:
  "engine m = Some eng \<Longrightarrow> pg_begin b = Inr () \<Longrightarrow>
   postgres_stats m b stats =
     Inl (ObjectNotExecutableError ''SELECT pg_database_size(current_database())'')"
  by (simp add: postgres_stats_def conn_execute_def)

section \<open>health_check\<close>

text \<open>What \<open>health_check\<close> returns, for every manager and every answer of the servers.\<close>

lemma health_check_result:
  "health_check m b = Inr [(''postgres'', False), (''redis'', \<not> isl (probe_redis m b))]"
  using probe_postgres_raises [of m b]
  by (cases "probe_postgres m b"; cases "probe_redis m b")
     (simp_all add: health_check_def Let_def dict_set_Nil dict_set_Cons)

text \<open>
  C5 at a concrete input. The relational server accepts connections and would answer
  \<open>SELECT 1\<close>; the cache server refuses connections. \<open>health_check\<close> does not raise, but it
  reports the relational store as unreachable too, because \<open>conn.execute("SELECT 1")\<close>
  raises inside the \<open>try\<close>: on the manager that \<open>initialize\<close> leaves behind and on one whose
  cache client is set the result is \<open>postgres: False, redis: False\<close>. With both servers
  running the entry for the relational store is \<open>False\<close> as well.
\<close>

theorem health_check_relational_up_cache_down:
  "pg_begin backends_cache_down = Inr ()
   \<and> pg_select1 backends_cache_down = Inr ()
   \<and> health_check half_initialized_manager backends_cache_down =
       Inr [(''postgres'', False), (''redis'', False)]
   \<and> health_check example_manager backends_cache_down =
       Inr [(''postgres'', False), (''redis'', False)]
   \<and> health_check example_manager backends_up =
       Inr [(''postgres'', False), (''redis'', True)]"
  by (simp add: health_check_result probe_redis_def half_initialized_manager_def
      example_manager_def backends_cache_down_def backends_up_def)

section \<open>get_stats\<close>

text \<open>
  C2, as stated, fails. With the relational server refusing connections \<open>get_stats\<close>
  raises the server's fault: the failure is not turned into an absent entry.
\<close>

theorem get_stats_counterexample:
  "get_stats example_manager backends_relational_down = Inl (BackendError ''connection refused'')
   \<and> get_stats half_initialized_manager backends_relational_down =
       Inl (BackendError ''connection refused'')"
  by (simp add: get_stats_def postgres_stats_def example_manager_def
      half_initialized_manager_def backends_relational_down_def backends_up_def)

text \<open>
  C2, amended. \<open>get_stats\<close> does not absorb a failure of the relational backend: the
  relational block has no handler, so when the relational store cannot be reached
  \<open>get_stats\<close> raises that fault and returns no statistics.
\<close>

theorem get_stats_relational_failure:
  "engine m = Some eng \<Longrightarrow> pg_begin b = Inl e \<Longrightarrow> get_stats m b = Inl e"
  by (simp add: get_stats_def postgres_stats_def)

theorem get_stats_relational_failure_witness:
  "engine example_manager = Some (new_engine example_settings)
   \<and> pg_begin backends_relational_down = Inl (BackendError ''connection refused'')
   \<and> get_stats example_manager backends_relational_down = Inl (BackendError ''connection refused'')"
  using get_stats_relational_failure [of example_manager "new_engine example_settings"
          backends_relational_down "BackendError ''connection refused''"]
  by (simp add: example_manager_def backends_relational_down_def backends_up_def)

text \<open>
  With the relational server reachable \<open>get_stats\<close> raises as well, at its first statement,
  whatever the cache does; the part that asks the cache is not reached. That part, taken
  alone, keeps the dictionary as it is when the \<open>info\<close> call raises.
\<close>

lemma get_stats_connected:
  "engine m = Some eng \<Longrightarrow> pg_begin b = Inr () \<Longrightarrow>
   get_stats m b = Inl (ObjectNotExecutableError ''SELECT pg_database_size(current_database())'')"
  by (simp add: get_stats_def postgres_stats_connected)

lemma get_stats_raises: "isl (get_stats m b)"
  by (simp add: get_stats_def postgres_stats_def conn_execute_def split: option.splits sum.splits)

lemma redis_stats_info_fails: "fetch_redis_info m b = Inl e \<Longrightarrow> redis_stats m b stats = stats"
  by (simp add: redis_stats_def)

section \<open>initialize\<close>

text \<open>
  C7, as stated, fails. With the relational server refusing connections \<open>initialize\<close>
  raises after the relational probe alone: the cache client is not created and the cache
  is not probed, so not both backends are probed.
\<close>

theorem initialize_relational_down_counterexample:
  "initialize example_settings backends_relational_down init_manager =
     (Inl (BackendError ''connection refused''), half_initialized_manager, [ProbePostgres])"
  by (simp add: initialize_def init_postgres_def probe_postgres_def init_manager_def
      half_initialized_manager_def backends_relational_down_def backends_up_def Let_def)

text \<open>
  C7, amended. \<open>initialize\<close> sets up and probes the relational store first. When that probe
  fails because the store cannot be reached, \<open>initialize\<close> raises the probe's exception at
  once: the cache client is neither created nor pinged, and nothing is rolled back, so the
  engine and the session factory stay assigned and the cache client stays as it was
  (absent on a fresh manager).
\<close>

theorem initialize_relational_failure:
  "pg_begin b = Inl e \<Longrightarrow>
   initialize st b m =
     (Inl e,
      m\<lparr>engine := Some (new_engine st), session_factory := Some (new_engine st)\<rparr>,
      [ProbePostgres])"
  by (simp add: initialize_def init_postgres_def probe_postgres_def Let_def)

theorem initialize_relational_failure_witness:
  "pg_begin backends_relational_down = Inl (BackendError ''connection refused'')
   \<and> initialize example_settings backends_relational_down init_manager =
       (Inl (BackendError ''connection refused''),
        \<lparr>engine = Some (new_engine example_settings),
         session_factory = Some (new_engine example_settings),
         redis_client = None\<rparr>,
        [ProbePostgres])"
  using initialize_relational_failure [of backends_relational_down
          "BackendError ''connection refused''" example_settings init_manager]
  by (simp add: init_manager_def backends_relational_down_def backends_up_def)

text \<open>
  With the relational server reachable the probe raises as well, at \<open>SELECT 1\<close>, so
  \<open>_init_redis\<close> is not reached in that case either.
\<close>

lemma initialize_connected:
  "pg_begin b = Inr () \<Longrightarrow>
   initialize st b m =
     (Inl (ObjectNotExecutableError ''SELECT 1''),
      m\<lparr>engine := Some (new_engine st), session_factory := Some (new_engine st)\<rparr>,
      [ProbePostgres])"
  by (simp add: initialize_def init_postgres_def probe_postgres_def conn_execute_def Let_def)

section \<open>get_session\<close>

text \<open>
  The statements of \<open>get_session\<close>, when driven as a context manager, do one of three
  things on leaving the block: roll back and raise again when the block raised; commit
  when it ended normally; and roll back after a closing commit that raised.
\<close>

lemma session_scope_commit_or_rollback:
  "(fst (body (new_session db)) = Inl e \<longrightarrow>
      fst (session_scope body fault db) = Inl e
      \<and> trace (snd (session_scope body fault db)) = trace (snd (body (new_session db))) @ [Rollback]
      \<and> store (snd (session_scope body fault db)) = store (snd (body (new_session db))))
   \<and> (fst (body (new_session db)) = Inr v \<and> fault = None \<longrightarrow>
      fst (session_scope body fault db) = Inr v
      \<and> trace (snd (session_scope body fault db)) = trace (snd (body (new_session db))) @ [Commit])
   \<and> (fst (body (new_session db)) = Inr v \<and> fault = Some e' \<longrightarrow>
      fst (session_scope body fault db) = Inl e'
      \<and> trace (snd (session_scope body fault db))
          = trace (snd (body (new_session db))) @ [Commit, Rollback]
      \<and> store (snd (session_scope body fault db)) = store (snd (body (new_session db))))"
proof -
  obtain r s1 where b: "body (new_session db) = (r, s1)"
    by (cases "body (new_session db)")
  show ?thesis
    by (cases r; cases fault)
       (simp_all add: b session_scope_def session_commit_def session_rollback_def)
qed

text \<open>
  C6 on the code. Every acquisition written as \<open>async with self.db.get_session()\<close> raises
  \<open>TypeError\<close> before the block is entered, whatever the block, the store and the server's
  answers: neither a commit nor a rollback occurs (the trace is empty), and the store is
  untouched.
\<close>

theorem async_with_get_session_raises:
  "async_with get_session body exit_fault db = (Inl not_a_context_manager, new_session db)
   \<and> trace (snd (async_with get_session body exit_fault db)) = []
   \<and> store (snd (async_with get_session body exit_fault db)) = db"
  by (simp add: async_with_def get_session_def new_session_def)

section \<open>seed_database\<close>

lemma seed_database_raises:
  "seed_database st f db =
     (Inl not_a_context_manager, db, [Print (seedling @ '' Seeding database with initial data...'')])"
  by (simp add: seed_database_def seed_database_in_def async_with_def get_session_def
      new_session_def)

lemma seeded_unchanged: "seeded st f db = db"
  by (simp add: seeded_def seed_database_raises)

text \<open>
  C1 at a concrete input. The store holds one active plan and no server. \<open>seed_database\<close>
  prints its first line and raises \<open>TypeError\<close> at \<open>async with self.db.get_session()\<close>,
  before either existence check: no server is inserted.
\<close>

theorem seed_database_plans_only:
  "count_active_plans plans_only_store = 1
   \<and> servers plans_only_store = []
   \<and> seed_database example_settings no_faults plans_only_store =
       (Inl not_a_context_manager,
        plans_only_store,
        [Print (seedling @ '' Seeding database with initial data...'')])
   \<and> servers (seeded example_settings no_faults plans_only_store) = []"
  by (simp add: seed_database_raises seeded_unchanged count_active_plans_def plans_only_store_def)

text \<open>
  The block of \<open>seed_database\<close>, taken alone: on a session whose store holds an active plan
  it prints that the seed is skipped and returns, before the check on the servers, adding
  and committing nothing.
\<close>

lemma seed_body_skip:
  "count_plans_fault f = None \<Longrightarrow> 0 < count_active_plans (store s) \<Longrightarrow>
   seed_body st f s =
     (Inr (), session_print (warning_sign @ ''  Database already contains data. Skipping seed.'') s)"
  by (simp add: seed_body_def Let_def)

text \<open>
  C8. Seeding twice leaves the store that seeding once leaves, whatever the server answers
  in either run: the second run inserts no row into either table, and the row counts of
  plans and servers agree.
\<close>

theorem seed_database_idempotent:
  "seeded st f' (seeded st f db) = seeded st f db
   \<and> length (plans (seeded st f' (seeded st f db))) = length (plans (seeded st f db))
   \<and> length (servers (seeded st f' (seeded st f db))) = length (servers (seeded st f db))"
  by (simp add: seeded_unchanged)

text \<open>
  The same holds when the session is entered through a context manager, so it does not
  rest on the \<open>TypeError\<close>: after any run the store is unchanged or holds an active plan,
  and a run on a store with an active plan changes nothing.
\<close>

lemma default_plans_not_Nil: "default_plans st \<noteq> []"
  by (simp add: default_plans_def)

lemma active_default_plans: "filter plan_is_active (default_plans st) = default_plans st"
  by (simp add: default_plans_def)

lemma seeded_in_skip:
  "0 < count_active_plans db \<Longrightarrow> seeded_in AsyncContextManager st f db = db"
  by (simp add: seeded_in_def seed_database_in_def async_with_def session_scope_def seed_body_def
      session_commit_def session_rollback_def session_print_def new_session_def Let_def
      split: option.splits prod.splits sum.splits)

lemma seeded_in_unchanged_or_active:
  "seeded_in AsyncContextManager st f db = db
   \<or> 0 < count_active_plans (seeded_in AsyncContextManager st f db)"
  by (simp add: seeded_in_def seed_database_in_def async_with_def session_scope_def seed_body_def
      session_commit_def session_rollback_def session_print_def new_session_def Let_def
      fold_session_add_plan fold_session_add_server count_active_plans_def
      active_default_plans default_plans_not_Nil
      split: option.splits prod.splits sum.splits)

lemma seeded_in_idempotent:
  "seeded_in obj st f (seeded_in obj st f db) = seeded_in obj st f db"
proof (cases obj)
  case AsyncGenerator
  then show ?thesis
    by (simp add: seeded_in_def seed_database_in_def async_with_def new_session_def)
next
  case AsyncContextManager
  then show ?thesis
    using seeded_in_unchanged_or_active [of st f db]
          seeded_in_skip [of "seeded_in AsyncContextManager st f db" st f]
    by auto
qed

section \<open>backup_database and restore_database\<close>

text \<open>
  What the two bodies do once every global name they read is bound: they start exactly one
  child process, hand it the password in the environment variable \<open>PGPASSWORD\<close> and
  nowhere in the argument vector, and turn a non-zero exit code into an exception that
  carries the captured standard error.
\<close>

lemma backup_database_in_bound:
  assumes "''Path'' \<in> set g" and "''os'' \<in> set g" and "''asyncio'' \<in> set g"
  shows "backup_database_in g st os backup_path =
     (let filepath = path_join os backup_path (''connectifyvpn_backup_'' @ clock os @ ''.sql'');
          child = \<lparr>argv = [''pg_dump'', ''-h'', db_host (database st),
                           ''-p'', str_int (db_port (database st)),
                           ''-U'', db_user (database st), ''-d'', db_name (database st),
                           ''-f'', filepath, ''--format=custom'', ''--verbose''],
                   spawn_env = dict_set ''PGPASSWORD'' (db_password (database st)) (os_environ os)\<rparr>
      in case run_process os child of
           Inl e \<Rightarrow> (Inl e, [child])
         | Inr process \<Rightarrow>
             (if returncode process \<noteq> 0
              then (Inl (PyException (''Backup failed: '' @ stderr process)), [child])
              else (Inr filepath, [child])))"
  using assms by (simp add: backup_database_in_def load_global_def Let_def)

lemma restore_database_in_bound:
  assumes "''os'' \<in> set g" and "''asyncio'' \<in> set g"
  shows "restore_database_in g st os backup_path =
     (let child = \<lparr>argv = [''pg_restore'', ''-h'', db_host (database st),
                           ''-p'', str_int (db_port (database st)),
                           ''-U'', db_user (database st), ''-d'', db_name (database st),
                           ''-c'', ''--verbose'', backup_path],
                   spawn_env = dict_set ''PGPASSWORD'' (db_password (database st)) (os_environ os)\<rparr>
      in case run_process os child of
           Inl e \<Rightarrow> (Inl e, [child])
         | Inr process \<Rightarrow>
             (if returncode process \<noteq> 0
              then (Inl (PyException (''Restore failed: '' @ stderr process)), [child])
              else (Inr True, [child])))"
  using assms by (simp add: restore_database_in_def load_global_def Let_def)

lemma restore_database_in_children:
  assumes "c \<in> set (snd (restore_database_in g st os backup_path))"
  shows "map_of (spawn_env c) ''PGPASSWORD'' = Some (db_password (database st))
       \<and> argv c = [''pg_restore'', ''-h'', db_host (database st),
                   ''-p'', str_int (db_port (database st)),
                   ''-U'', db_user (database st), ''-d'', db_name (database st),
                   ''-c'', ''--verbose'', backup_path]"
  using assms
  by (auto simp add: restore_database_in_def load_global_def Let_def map_of_dict_set
      split: if_splits sum.splits)

lemma backup_database_in_children:
  assumes "c \<in> set (snd (backup_database_in g st os backup_path))"
  shows "map_of (spawn_env c) ''PGPASSWORD'' = Some (db_password (database st))
       \<and> argv c = [''pg_dump'', ''-h'', db_host (database st),
                   ''-p'', str_int (db_port (database st)),
                   ''-U'', db_user (database st), ''-d'', db_name (database st),
                   ''-f'', path_join os backup_path (''connectifyvpn_backup_'' @ clock os @ ''.sql''),
                   ''--format=custom'', ''--verbose'']"
  using assms
  by (auto simp add: backup_database_in_def load_global_def Let_def map_of_dict_set
      split: if_splits sum.splits)

text \<open>
  C3. In the module as it is written neither \<open>Path\<close> nor \<open>os\<close> is bound, so for every
  settings value, every machine and every path \<open>backup_database\<close> raises \<open>NameError\<close> at
  \<open>Path(backup_path)\<close> and \<open>restore_database\<close> raises \<open>NameError\<close> at \<open>os.environ\<close>; in both
  cases no child process has been asked for, so no backup file is written and nothing is
  restored.
\<close>

theorem backup_restore_name_error:
  "backup_database st os backup_path = (Inl (NameError ''Path''), [])
   \<and> restore_database st os backup_path = (Inl (NameError ''os''), [])"
  by (simp add: backup_database_def restore_database_def backup_database_in_def
      restore_database_in_def load_global_def database_module_globals_def Let_def)

text \<open>
  C9 at a concrete input. The dump utility of \<open>example_os\<close> would exit with code 0 and that
  of \<open>failing_os\<close> with code 1 and a message on standard error; \<open>backup_database\<close> returns
  no path in the first case and carries no standard error in the second, because it
  raises \<open>NameError\<close> before any process is started. \<open>backup\<close> prints that exception.
\<close>

theorem backup_database_exit_code_unreached:
  "backup_database example_settings example_os ''/var/backups'' = (Inl (NameError ''Path''), [])
   \<and> backup_database example_settings failing_os ''/var/backups'' = (Inl (NameError ''Path''), [])
   \<and> printed (backup example_settings example_os (Some ''/var/backups'')) =
       [floppy_disk @ '' Creating backup at /var/backups...'',
        cross_mark @ '' Backup failed: name '' @ [CHR 0x27] @ ''Path'' @ [CHR 0x27] @ '' is not defined'']"
  by (simp add: backup_def backup_database_def backup_database_in_def load_global_def
      database_module_globals_def Let_def)

text \<open>
  C10 at a concrete input. With the password \<open>s3cret\<close> configured, neither function starts
  a child process, so the password reaches no process, by the environment or otherwise:
  the lists of children are empty, also when \<open>restore\<close> is confirmed on an existing file.
\<close>

theorem password_reaches_no_process:
  "db_password (database example_settings) = ''s3cret''
   \<and> snd (backup_database example_settings example_os ''/var/backups'') = []
   \<and> snd (restore_database example_settings example_os ''/var/backups/connectifyvpn.dump'') = []
   \<and> restore example_settings example_os ''/var/backups/connectifyvpn.dump'' =
       \<lparr>raised = None,
        printed = [arrows @ '' Restoring from /var/backups/connectifyvpn.dump...'',
                   cross_mark @ '' Restore failed: name '' @ [CHR 0x27] @ ''os'' @ [CHR 0x27]
                     @ '' is not defined''],
        prompted = True,
        spawned = []\<rparr>"
  by (simp add: restore_def backup_database_def restore_database_def backup_database_in_def
      restore_database_in_def load_global_def database_module_globals_def Let_def
      example_settings_def example_os_def lower_yes)

section \<open>restore\<close>

text \<open>
  C4, as stated, fails. On a path that does not exist \<open>restore\<close> raises nothing: it prints
  one line and returns. No child process is started and the user is not asked.
\<close>

theorem restore_missing_path_counterexample:
  "\<not> path_exists example_os ''/nonexistent/path''
   \<and> raised (restore example_settings example_os ''/nonexistent/path'') = None
   \<and> printed (restore example_settings example_os ''/nonexistent/path'') =
       [cross_mark @ '' Backup file not found: /nonexistent/path'']"
  by (simp add: restore_def example_os_def)

text \<open>
  C4, amended. For every path that does not exist, \<open>restore\<close> reports the missing file by
  printing one line and returns normally; it does so before asking for confirmation and
  before any child process is started.
\<close>

theorem restore_missing_path:
  "\<not> path_exists os backup_path \<Longrightarrow>
   restore st os backup_path =
     \<lparr>raised = None,
      printed = [cross_mark @ '' Backup file not found: '' @ backup_path],
      prompted = False,
      spawned = []\<rparr>"
  by (simp add: restore_def)

theorem restore_missing_path_witness:
  "\<not> path_exists example_os ''/tmp/missing.dump''
   \<and> restore example_settings example_os ''/tmp/missing.dump'' =
       \<lparr>raised = None,
        printed = [cross_mark @ '' Backup file not found: /tmp/missing.dump''],
        prompted = False,
        spawned = []\<rparr>"
  using restore_missing_path [of example_os "''/tmp/missing.dump''" example_settings]
  by (simp add: example_os_def)

end
